theory Spec2Isabelle
  imports Main "HOL-Library.Sublist"
begin

section \<open>The Go library functions the program calls\<close>

text \<open>
  A Go \<^verbatim>\<open>string\<close> is a sequence of bytes, and so is a HOL \<^typ>\<open>string\<close>.
  \<^verbatim>\<open>strings.HasPrefix\<close>, \<^verbatim>\<open>strings.HasSuffix\<close> and
  \<^verbatim>\<open>strings.Contains\<close> are \<^const>\<open>prefix\<close>, \<^const>\<open>suffix\<close> and
  \<^const>\<open>sublist\<close> with the arguments in Go's order.
\<close>

definition strings_HasPrefix :: "string \<Rightarrow> string \<Rightarrow> bool" where
  "strings_HasPrefix s pre = prefix pre s"

definition strings_HasSuffix :: "string \<Rightarrow> string \<Rightarrow> bool" where
  "strings_HasSuffix s suf = suffix suf s"

definition strings_Contains :: "string \<Rightarrow> string \<Rightarrow> bool" where
  "strings_Contains s substr = sublist substr s"

text \<open>
  \<^verbatim>\<open>strings.ReplaceAll(s, old, new)\<close>: the non-overlapping occurrences of \<open>old\<close>,
  found from the left, are replaced by \<open>new\<close>. For an empty \<open>old\<close> Go inserts \<open>new\<close>
  before every UTF-8 sequence and at the end; the equations below do so before every byte,
  which is the same on ASCII text (the program only ever passes \<^verbatim>\<open>"-"\<close>).
\<close>

fun strings_ReplaceAll :: "string \<Rightarrow> string \<Rightarrow> string \<Rightarrow> string" where
  "strings_ReplaceAll [] old new = (if old = [] then new else [])"
| "strings_ReplaceAll (c # cs) old new =
     (if old = [] then new @ c # strings_ReplaceAll cs old new
      else if prefix old (c # cs)
        then new @ strings_ReplaceAll (drop (length old - 1) cs) old new
      else c # strings_ReplaceAll cs old new)"

text \<open>
  \<^verbatim>\<open>strings.Split(s, sep)\<close>: the pieces of \<open>s\<close> between the non-overlapping
  occurrences of \<open>sep\<close>, found from the left. \<open>genSplit sep piece s\<close> scans \<open>s\<close> with the
  piece read so far. For an empty \<open>sep\<close> Go explodes \<open>s\<close> into its UTF-8 sequences; the
  model explodes it into bytes (the program only ever splits on \<^verbatim>\<open>"://"\<close>).
\<close>

fun genSplit :: "string \<Rightarrow> string \<Rightarrow> string \<Rightarrow> string list" where
  "genSplit sep piece [] = [piece]"
| "genSplit sep piece (c # cs) =
     (if prefix sep (c # cs)
        then piece # genSplit sep [] (drop (length sep - 1) cs)
      else genSplit sep (piece @ [c]) cs)"

definition strings_Split :: "string \<Rightarrow> string \<Rightarrow> string list" where
  "strings_Split s sep = (if sep = [] then map (\<lambda>c. [c]) s else genSplit sep [] s)"

text \<open>
  A Go function either returns or panics. The slice expression \<^verbatim>\<open>s[lo:hi]\<close> panics
  unless \<open>0 \<le> lo \<le> hi \<le> len(s)\<close>.
\<close>

datatype 'a go = Return 'a | Panic string

definition slice :: "string \<Rightarrow> int \<Rightarrow> int \<Rightarrow> string go" where
  "slice s lo hi =
     (if 0 \<le> lo \<and> lo \<le> hi \<and> hi \<le> int (length s)
        then Return (take (nat (hi - lo)) (drop (nat lo) s))
      else Panic ''slice bounds out of range'')"

text \<open>An \<^verbatim>\<open>error\<close> made by \<^verbatim>\<open>fmt.Errorf\<close> is its message; \<open>None\<close> is \<^verbatim>\<open>nil\<close>.\<close>

datatype error = Errorf string

section \<open>Constants\<close>

type_synonym CgroupDriverType = string

definition Cgroupfs :: CgroupDriverType where "Cgroupfs = ''cgroupfs''"
definition Systemd :: CgroupDriverType where "Systemd = ''systemd''"

definition KubeRootNameSystemd :: string where "KubeRootNameSystemd = ''kubepods.slice/''"
definition KubeBurstableNameSystemd :: string where
  "KubeBurstableNameSystemd = ''kubepods-burstable.slice/''"
definition KubeBesteffortNameSystemd :: string where
  "KubeBesteffortNameSystemd = ''kubepods-besteffort.slice/''"

definition KubeRootNameCgroupfs :: string where "KubeRootNameCgroupfs = ''kubepods/''"
definition KubeBurstableNameCgroupfs :: string where "KubeBurstableNameCgroupfs = ''burstable/''"
definition KubeBesteffortNameCgroupfs :: string where "KubeBesteffortNameCgroupfs = ''besteffort/''"

definition RuntimeTypeDocker :: string where "RuntimeTypeDocker = ''docker''"
definition RuntimeTypeContainerd :: string where "RuntimeTypeContainerd = ''containerd''"
definition RuntimeTypeUnknown :: string where "RuntimeTypeUnknown = ''unknown''"

definition Validate :: "CgroupDriverType \<Rightarrow> bool" where
  "Validate c = (c = Cgroupfs \<or> c = Systemd)"

text \<open>
  \<^verbatim>\<open>corev1.PodQOSClass\<close> is a string type of the Kubernetes API package, with the three
  constants below; a value of the type can be any string.
\<close>

type_synonym PodQOSClass = string

definition PodQOSGuaranteed :: PodQOSClass where "PodQOSGuaranteed = ''Guaranteed''"
definition PodQOSBurstable :: PodQOSClass where "PodQOSBurstable = ''Burstable''"
definition PodQOSBestEffort :: PodQOSClass where "PodQOSBestEffort = ''BestEffort''"

section \<open>The formatters\<close>

record Formatter =
  ParentDir :: string
  QOSDirFn :: "PodQOSClass \<Rightarrow> string"
  PodDirFn :: "PodQOSClass \<Rightarrow> string \<Rightarrow> string"
  ContainerDirFn :: "string \<Rightarrow> string \<times> string \<times> error option"
  PodIDParser :: "string \<Rightarrow> (string \<times> error option) go"
  ContainerIDParser :: "string \<Rightarrow> (string \<times> error option) go"

text \<open>
  Both parsers of the systemd formatter run the same loop over a table of
  (prefix, suffix) pairs, with the same error message.
\<close>

fun parsePatterns :: "(string \<times> string) list \<Rightarrow> string \<Rightarrow> (string \<times> error option) go" where
  "parsePatterns [] basename =
     Return ('''', Some (Errorf (''fail to parse pod id: '' @ basename)))"
| "parsePatterns ((pre, suf) # patterns) basename =
     (if strings_HasPrefix basename pre \<and> strings_HasSuffix basename suf
        then (case slice basename (int (length pre))
                     (int (length basename) - int (length suf)) of
                Return sub \<Rightarrow> Return (sub, None)
              | Panic msg \<Rightarrow> Panic msg)
      else parsePatterns patterns basename)"

definition systemd_QOSDirFn :: "PodQOSClass \<Rightarrow> string" where
  "systemd_QOSDirFn qos =
     (if qos = PodQOSBurstable then KubeBurstableNameSystemd
      else if qos = PodQOSBestEffort then KubeBesteffortNameSystemd
      else if qos = PodQOSGuaranteed then ''/''
      else ''/'')"

definition systemd_PodDirFn :: "PodQOSClass \<Rightarrow> string \<Rightarrow> string" where
  "systemd_PodDirFn qos podUID =
     (let uid = strings_ReplaceAll podUID ''-'' ''_'' in
      if qos = PodQOSBurstable then ''kubepods-burstable-pod'' @ uid @ ''.slice/''
      else if qos = PodQOSBestEffort then ''kubepods-besteffort-pod'' @ uid @ ''.slice/''
      else if qos = PodQOSGuaranteed then ''kubepods-pod'' @ uid @ ''.slice/''
      else ''/'')"

definition systemd_ContainerDirFn :: "string \<Rightarrow> string \<times> string \<times> error option" where
  "systemd_ContainerDirFn cid =
     (case strings_Split cid ''://'' of
        h0 # h1 # _ \<Rightarrow>
          if h0 = RuntimeTypeDocker
            then (RuntimeTypeDocker, ''docker-'' @ h1 @ ''.scope'', None)
          else if h0 = RuntimeTypeContainerd
            then (RuntimeTypeContainerd, ''cri-containerd-'' @ h1 @ ''.scope'', None)
          else (RuntimeTypeUnknown, '''', Some (Errorf (''unknown container protocol '' @ cid)))
      | _ \<Rightarrow>
          (RuntimeTypeUnknown, '''',
           Some (Errorf (''parse container id '' @ cid @ '' failed''))))"

definition systemd_PodIDParser :: "string \<Rightarrow> (string \<times> error option) go" where
  "systemd_PodIDParser basename =
     parsePatterns
       [(''kubepods-besteffort-pod'', ''.slice''),
        (''kubepods-burstable-pod'', ''.slice''),
        (''kubepods-pod'', ''.slice'')] basename"

definition systemd_ContainerIDParser :: "string \<Rightarrow> (string \<times> error option) go" where
  "systemd_ContainerIDParser basename =
     parsePatterns
       [(''docker-'', ''.scope''),
        (''cri-containerd-'', ''.scope'')] basename"

definition cgroupPathFormatterInSystemd :: Formatter where
  "cgroupPathFormatterInSystemd =
     \<lparr> ParentDir = KubeRootNameSystemd,
       QOSDirFn = systemd_QOSDirFn,
       PodDirFn = systemd_PodDirFn,
       ContainerDirFn = systemd_ContainerDirFn,
       PodIDParser = systemd_PodIDParser,
       ContainerIDParser = systemd_ContainerIDParser \<rparr>"

definition cgroupfs_QOSDirFn :: "PodQOSClass \<Rightarrow> string" where
  "cgroupfs_QOSDirFn qos =
     (if qos = PodQOSBurstable then KubeBurstableNameCgroupfs
      else if qos = PodQOSBestEffort then KubeBesteffortNameCgroupfs
      else if qos = PodQOSGuaranteed then ''/''
      else ''/'')"

definition cgroupfs_PodDirFn :: "PodQOSClass \<Rightarrow> string \<Rightarrow> string" where
  "cgroupfs_PodDirFn qos podUID = ''pod'' @ podUID @ ''/''"

definition cgroupfs_ContainerDirFn :: "string \<Rightarrow> string \<times> string \<times> error option" where
  "cgroupfs_ContainerDirFn cid =
     (case strings_Split cid ''://'' of
        h0 # h1 # _ \<Rightarrow>
          if h0 = RuntimeTypeDocker then (RuntimeTypeDocker, h1, None)
          else if h0 = RuntimeTypeContainerd then (RuntimeTypeContainerd, h1, None)
          else (RuntimeTypeUnknown, '''', Some (Errorf (''unknown container protocol '' @ cid)))
      | _ \<Rightarrow>
          (RuntimeTypeUnknown, '''',
           Some (Errorf (''parse container id '' @ cid @ '' failed''))))"

definition cgroupfs_PodIDParser :: "string \<Rightarrow> (string \<times> error option) go" where
  "cgroupfs_PodIDParser basename =
     (if strings_HasPrefix basename ''pod''
        then (case slice basename (int (length ''pod'')) (int (length basename)) of
                Return sub \<Rightarrow> Return (sub, None)
              | Panic msg \<Rightarrow> Panic msg)
      else Return ('''', Some (Errorf (''fail to parse pod id: '' @ basename))))"

definition cgroupfs_ContainerIDParser :: "string \<Rightarrow> (string \<times> error option) go" where
  "cgroupfs_ContainerIDParser basename = Return (basename, None)"

definition cgroupPathFormatterInCgroupfs :: Formatter where
  "cgroupPathFormatterInCgroupfs =
     \<lparr> ParentDir = KubeRootNameCgroupfs,
       QOSDirFn = cgroupfs_QOSDirFn,
       PodDirFn = cgroupfs_PodDirFn,
       ContainerDirFn = cgroupfs_ContainerDirFn,
       PodIDParser = cgroupfs_PodIDParser,
       ContainerIDParser = cgroupfs_ContainerIDParser \<rparr>"

text \<open>
  The spec's words for what the systemd formatter does to a pod UID: every hyphen becomes
  an underscore.
\<close>

definition hyphens_to_underscores :: "string \<Rightarrow> string" where
  "hyphens_to_underscores s = map (\<lambda>c. if c = CHR ''-'' then CHR ''_'' else c) s"

section \<open>The active formatter and the driver detection\<close>

text \<open>
  The mutable state of the process that this file touches: the package variable
  \<^verbatim>\<open>CgroupPathFormatter\<close> and the lines handed to \<^verbatim>\<open>klog\<close>, oldest first.
  A function that writes either takes the state and returns the new one.
\<close>

datatype severity = INFO | WARNING | ERROR

record process =
  CgroupPathFormatter :: Formatter
  klog :: "(severity \<times> string) list"

definition klog_write :: "severity \<Rightarrow> string \<Rightarrow> process \<Rightarrow> process" where
  "klog_write sev msg w = w\<lparr>klog := klog w @ [(sev, msg)]\<rparr>"

text \<open>
  \<open>quoted s\<close> is \<open>s\<close> between two single quotes, as the format \<^verbatim>\<open>'%s'\<close> prints
  it; \<open>verb_v err\<close> is what \<^verbatim>\<open>%v\<close> prints for an error.
\<close>

definition quoted :: "string \<Rightarrow> string" where
  "quoted s = [CHR 0x27] @ s @ [CHR 0x27]"

definition verb_v :: "error option \<Rightarrow> string" where
  "verb_v err = (case err of None \<Rightarrow> ''<nil>'' | Some (Errorf msg) \<Rightarrow> msg)"

definition GetCgroupPathFormatter :: "CgroupDriverType \<Rightarrow> process \<Rightarrow> Formatter \<times> process" where
  "GetCgroupPathFormatter driver w =
     (if driver = Systemd then (cgroupPathFormatterInSystemd, w)
      else if driver = Cgroupfs then (cgroupPathFormatterInCgroupfs, w)
      else (cgroupPathFormatterInSystemd,
            klog_write WARNING (''cgroup driver formatter not supported: '' @ quoted driver) w))"

definition SetupCgroupPathFormatter :: "CgroupDriverType \<Rightarrow> process \<Rightarrow> process" where
  "SetupCgroupPathFormatter driver w =
     (if driver = Systemd then w\<lparr>CgroupPathFormatter := cgroupPathFormatterInSystemd\<rparr>
      else if driver = Cgroupfs then w\<lparr>CgroupPathFormatter := cgroupPathFormatterInCgroupfs\<rparr>
      else klog_write WARNING (''cgroup driver formatter not supported: '' @ quoted driver) w)"

text \<open>
  \<^verbatim>\<open>DetectCgroupDriverFromKubelet\<close> polls a closure that talks to the cluster. What
  the cluster answers is an input of the model: one \<open>poll_attempt\<close> for each run of the
  closure, naming the first call in it that does not go on to the next line.
  \<^item> \<open>GetConfigFails err\<close>: \<^verbatim>\<open>config.GetConfig()\<close> returned \<open>err\<close>.
  \<^item> \<open>NewForConfigDies msg\<close>: \<^verbatim>\<open>clientset.NewForConfigOrDie(cfg)\<close> panicked, which
    it does when no client can be built from the config it is given.
  \<^item> \<open>GetNodeFails err\<close>: fetching the node returned \<open>err\<close>, or (\<open>None\<close>) no error
    and a nil node.
  \<^item> \<open>KubeletPortGuess driver err\<close>: the node was fetched and
    \<^verbatim>\<open>GuessCgroupDriverFromKubeletPort(port)\<close>, a function of another file that queries
    the kubelet, returned \<open>(driver, err)\<close>.
\<close>

datatype poll_attempt =
    GetConfigFails error
  | NewForConfigDies string
  | GetNodeFails "error option"
  | KubeletPortGuess CgroupDriverType "error option"

text \<open>
  The closure, on the captured variable \<open>detectCgroupDriver\<close> and the process state. It
  returns Go's pair \<open>(done, err)\<close> with the new values of both, or panics.
\<close>

definition ErrWaitTimeout :: error where
  "ErrWaitTimeout = Errorf ''timed out waiting for the condition''"

fun condition ::
  "poll_attempt \<Rightarrow> CgroupDriverType \<times> process
     \<Rightarrow> ((bool \<times> error option) \<times> CgroupDriverType \<times> process) go" where
  "condition (GetConfigFails err) (detectCgroupDriver, w) =
     Return ((False, None), detectCgroupDriver,
             klog_write ERROR (''failed to get rest config.err='' @ verb_v (Some err)) w)"
| "condition (NewForConfigDies msg) (detectCgroupDriver, w) = Panic msg"
| "condition (GetNodeFails err) (detectCgroupDriver, w) =
     Return ((False, None), detectCgroupDriver,
             klog_write ERROR (''Can'' @ [CHR 0x27] @ ''t get node, err: '' @ verb_v err) w)"
| "condition (KubeletPortGuess driver err) (detectCgroupDriver, w) =
     (if err = None \<and> Validate driver then Return ((True, None), driver, w)
      else Return ((False, None), detectCgroupDriver,
             klog_write ERROR
               (''guess kubelet cgroup driver failed, retry...: '' @ verb_v err) w))"

text \<open>
  \<^verbatim>\<open>wait.PollImmediate(10s, 1min, condition)\<close> runs the closure at once and then
  at every tick until the timeout: it returns the closure's error if there is one, \<^verbatim>\<open>nil\<close>
  when the closure says it is done, and \<^verbatim>\<open>ErrWaitTimeout\<close> when the time is up. A
  panic of the closure is logged and raised again. The list holds the attempts made
  before the timeout, in order.
\<close>

fun PollImmediate ::
  "poll_attempt list \<Rightarrow> CgroupDriverType \<times> process
     \<Rightarrow> (error option \<times> CgroupDriverType \<times> process) go" where
  "PollImmediate [] (detectCgroupDriver, w) = Return (Some ErrWaitTimeout, detectCgroupDriver, w)"
| "PollImmediate (a # attempts) (detectCgroupDriver, w) =
     (case condition a (detectCgroupDriver, w) of
        Panic msg \<Rightarrow> Panic msg
      | Return ((ok, err), st) \<Rightarrow>
          if err \<noteq> None then Return (err, st)
          else if ok then Return (None, st)
          else PollImmediate attempts st)"

definition DetectCgroupDriverFromKubelet ::
  "string \<Rightarrow> poll_attempt list \<Rightarrow> process \<Rightarrow> ((CgroupDriverType \<times> error option) \<times> process) go" where
  "DetectCgroupDriverFromKubelet nodeName attempts w =
     (case PollImmediate attempts ('''', w) of
        Panic msg \<Rightarrow> Panic msg
      | Return (Some pollErr, detectCgroupDriver, w') \<Rightarrow> Return (('''', Some pollErr), w')
      | Return (None, detectCgroupDriver, w') \<Rightarrow> Return ((detectCgroupDriver, None), w'))"

text \<open>
  \<^verbatim>\<open>DetectCgroupDriver\<close>. Its inputs from outside are \<open>nodeName\<close>, the value of
  the environment variable \<^verbatim>\<open>NODE_NAME\<close>; \<open>guess\<close>, what
  \<^verbatim>\<open>GuessCgroupDriverFromCgroupName()\<close> returns (a function of another file that
  reads the cgroup directories); and the poll attempts.
\<close>

definition DetectCgroupDriver ::
  "string \<Rightarrow> CgroupDriverType \<Rightarrow> poll_attempt list \<Rightarrow> process
     \<Rightarrow> (CgroupDriverType \<times> process) go" where
  "DetectCgroupDriver nodeName guess attempts w =
     (let w1 = klog_write INFO ''start to get cgroup driver formatter...'' w;
          driver = guess
      in if Validate driver
         then Return (driver,
                klog_write INFO (''Node '' @ nodeName @ '' use '' @ quoted driver
                  @ '' as cgroup driver according to the cgroup name'') w1)
         else
           (let w2 = klog_write INFO
                  (''can not detect cgroup driver from '' @ quoted ''kubepods''
                    @ '' cgroup name'') w1
            in case DetectCgroupDriverFromKubelet nodeName attempts w2 of
                 Panic msg \<Rightarrow> Panic msg
               | Return ((driver, None), w3) \<Rightarrow>
                   Return (driver,
                     klog_write INFO (''Node '' @ nodeName @ '' use '' @ quoted driver
                       @ '' as cgroup driver according to the kubelet config'') w3)
               | Return ((driver, Some err), w3) \<Rightarrow>
                   Return (Systemd,
                     klog_write ERROR
                       (''can not detect cgroup driver from kubelet, use the default, err: ''
                         @ verb_v (Some err)) w3)))"

text \<open>The attempts in which the client constructor panics.\<close>

fun dies :: "poll_attempt \<Rightarrow> bool" where
  "dies (NewForConfigDies msg) = True"
| "dies _ = False"

text \<open>What a function returns, without the process state.\<close>

definition returned :: "('a \<times> process) go \<Rightarrow> 'a go" where
  "returned r = (case r of Return (x, w) \<Rightarrow> Return x | Panic msg \<Rightarrow> Panic msg)"

section \<open>Facts about the library functions\<close>

lemma ReplaceAll_hyphen:
  "strings_ReplaceAll s ''-'' ''_'' = map (\<lambda>c. if c = CHR ''-'' then CHR ''_'' else c) s"
  by (induction s) auto

lemma genSplit_no_sep:
  "sep \<noteq> [] \<Longrightarrow> \<not> sublist sep s \<Longrightarrow> genSplit sep piece s = [piece @ s]"
proof (induction s arbitrary: piece)
  case Nil
  then show ?case by simp
next
  case (Cons c cs)
  from Cons.prems have np: "\<not> prefix sep (c # cs)"
    by (auto dest: prefix_imp_sublist)
  from Cons.prems have "\<not> sublist sep cs"
    by (simp add: sublist_Cons_right)
  with Cons.IH [of "piece @ [c]"] Cons.prems(1) np show ?case by simp
qed

lemma no_bridge:
  "\<not> sublist ''://'' (c # cs) \<Longrightarrow> \<not> prefix ''://'' (c # cs @ ''://'' @ rest)"
proof
  assume ns: "\<not> sublist ''://'' (c # cs)" and p: "prefix ''://'' (c # cs @ ''://'' @ rest)"
  show False
  proof (cases cs)
    case Nil
    with p show False by simp
  next
    case (Cons d ds)
    show False
    proof (cases ds)
      case Nil
      with Cons p show False by simp
    next
      case (Cons e es)
      with \<open>cs = d # ds\<close> p have "prefix ''://'' (c # cs)" by auto
      with ns show False by (auto dest: prefix_imp_sublist)
    qed
  qed
qed

lemma genSplit_first:
  "\<not> sublist ''://'' x \<Longrightarrow>
   genSplit ''://'' piece (x @ ''://'' @ rest) = (piece @ x) # genSplit ''://'' [] rest"
proof (induction x arbitrary: piece)
  case Nil
  then show ?case by simp
next
  case (Cons c cs)
  have np: "\<not> prefix ''://'' (c # cs @ ''://'' @ rest)"
    using no_bridge [OF Cons.prems] .
  from Cons.prems have "\<not> sublist ''://'' cs"
    by (simp add: sublist_Cons_right)
  from Cons.IH [OF this, of "piece @ [c]"] have
    "genSplit ''://'' (piece @ [c]) (cs @ ''://'' @ rest) = (piece @ c # cs) # genSplit ''://'' [] rest"
    by simp
  moreover have "genSplit ''://'' piece ((c # cs) @ ''://'' @ rest)
       = genSplit ''://'' (piece @ [c]) (cs @ ''://'' @ rest)"
    using np by (simp only: append_Cons genSplit.simps if_False)
  ultimately show ?case by (simp only:)
qed

section \<open>Facts about the formatters\<close>

lemma systemd_fields:
  "ParentDir cgroupPathFormatterInSystemd = KubeRootNameSystemd"
  "QOSDirFn cgroupPathFormatterInSystemd = systemd_QOSDirFn"
  "PodDirFn cgroupPathFormatterInSystemd = systemd_PodDirFn"
  "ContainerDirFn cgroupPathFormatterInSystemd = systemd_ContainerDirFn"
  "PodIDParser cgroupPathFormatterInSystemd = systemd_PodIDParser"
  "ContainerIDParser cgroupPathFormatterInSystemd = systemd_ContainerIDParser"
  by (simp_all add: cgroupPathFormatterInSystemd_def)

lemma cgroupfs_fields:
  "ParentDir cgroupPathFormatterInCgroupfs = KubeRootNameCgroupfs"
  "QOSDirFn cgroupPathFormatterInCgroupfs = cgroupfs_QOSDirFn"
  "PodDirFn cgroupPathFormatterInCgroupfs = cgroupfs_PodDirFn"
  "ContainerDirFn cgroupPathFormatterInCgroupfs = cgroupfs_ContainerDirFn"
  "PodIDParser cgroupPathFormatterInCgroupfs = cgroupfs_PodIDParser"
  "ContainerIDParser cgroupPathFormatterInCgroupfs = cgroupfs_ContainerIDParser"
  by (simp_all add: cgroupPathFormatterInCgroupfs_def)

lemmas qos_defs = PodQOSGuaranteed_def PodQOSBurstable_def PodQOSBestEffort_def

lemmas runtime_defs = RuntimeTypeDocker_def RuntimeTypeContainerd_def RuntimeTypeUnknown_def

lemma parsePatterns_hit:
  "parsePatterns ((pre, suf) # ps) (pre @ mid @ suf) = Return (mid, None)"
proof -
  have "suffix suf (pre @ mid @ suf)"
    by (intro suffix_appendI) simp
  then show ?thesis
    by (simp add: strings_HasPrefix_def strings_HasSuffix_def slice_def)
qed

lemma parsePatterns_miss:
  "\<not> prefix pre b \<Longrightarrow> parsePatterns ((pre, suf) # ps) b = parsePatterns ps b"
  by (simp add: strings_HasPrefix_def)

lemma systemd_PodIDParser_besteffort:
  "systemd_PodIDParser (''kubepods-besteffort-pod'' @ u @ ''.slice'') = Return (u, None)"
  unfolding systemd_PodIDParser_def by (rule parsePatterns_hit)

lemma systemd_PodIDParser_burstable:
  "systemd_PodIDParser (''kubepods-burstable-pod'' @ u @ ''.slice'') = Return (u, None)"
proof -
  have n: "\<not> prefix ''kubepods-besteffort-pod'' (''kubepods-burstable-pod'' @ u @ ''.slice'')"
    by simp
  show ?thesis
    unfolding systemd_PodIDParser_def
    by (subst parsePatterns_miss [OF n]) (rule parsePatterns_hit)
qed

lemma systemd_PodIDParser_guaranteed:
  "systemd_PodIDParser (''kubepods-pod'' @ u @ ''.slice'') = Return (u, None)"
proof -
  have n1: "\<not> prefix ''kubepods-besteffort-pod'' (''kubepods-pod'' @ u @ ''.slice'')"
    and n2: "\<not> prefix ''kubepods-burstable-pod'' (''kubepods-pod'' @ u @ ''.slice'')"
    by simp_all
  show ?thesis
    unfolding systemd_PodIDParser_def
    by (subst parsePatterns_miss [OF n1], subst parsePatterns_miss [OF n2])
      (rule parsePatterns_hit)
qed

lemma systemd_PodIDParser_trailing_slash:
  "systemd_PodIDParser (b @ ''/'') =
     Return ('''', Some (Errorf (''fail to parse pod id: '' @ b @ ''/'')))"
  by (simp add: systemd_PodIDParser_def strings_HasSuffix_def suffix_def)

lemma systemd_ContainerIDParser_docker:
  "systemd_ContainerIDParser (''docker-'' @ x @ ''.scope'') = Return (x, None)"
  unfolding systemd_ContainerIDParser_def by (rule parsePatterns_hit)

lemma systemd_ContainerIDParser_containerd:
  "systemd_ContainerIDParser (''cri-containerd-'' @ x @ ''.scope'') = Return (x, None)"
proof -
  have n: "\<not> prefix ''docker-'' (''cri-containerd-'' @ x @ ''.scope'')"
    by simp
  show ?thesis
    unfolding systemd_ContainerIDParser_def
    by (subst parsePatterns_miss [OF n]) (rule parsePatterns_hit)
qed

lemma cgroupfs_PodIDParser_pod:
  "cgroupfs_PodIDParser (''pod'' @ u) = Return (u, None)"
  by (simp add: cgroupfs_PodIDParser_def strings_HasPrefix_def slice_def)

lemma Split_no_sep:
  "\<not> strings_Contains cid ''://'' \<Longrightarrow> strings_Split cid ''://'' = [cid]"
  using genSplit_no_sep [of "''://''" cid "[]"]
  by (simp add: strings_Split_def strings_Contains_def)

lemma Split_first:
  "\<not> strings_Contains p ''://'' \<Longrightarrow>
   strings_Split (p @ ''://'' @ r) ''://'' = p # strings_Split r ''://''"
  using genSplit_first [of p "[]" r]
  by (simp add: strings_Split_def strings_Contains_def)

lemma Split_nonempty: "\<exists>h hs. strings_Split r ''://'' = h # hs"
proof -
  have "genSplit sep piece s \<noteq> []" for sep piece s
    by (induction sep piece s rule: genSplit.induct) auto
  then show ?thesis
    by (cases "genSplit ''://'' [] r") (auto simp: strings_Split_def)
qed

text \<open>
  Every string that contains \<open>://\<close> is \<open>p @ ''://'' @ r\<close> for a \<open>p\<close> that contains
  none, and such a \<open>p\<close> is the text before the first \<open>://\<close>: no other occurrence
  starts earlier.
\<close>

lemma first_separator_exists:
  "strings_Contains cid ''://'' \<Longrightarrow>
   \<exists>p r. cid = p @ ''://'' @ r \<and> \<not> strings_Contains p ''://''"
  unfolding strings_Contains_def
proof (induction cid)
  case Nil
  then show ?case by simp
next
  case (Cons c cs)
  show ?case
  proof (cases "prefix ''://'' (c # cs)")
    case True
    then obtain r where "c # cs = [] @ ''://'' @ r"
      by (auto simp: prefix_def)
    moreover have "\<not> sublist ''://'' []"
      by simp
    ultimately show ?thesis
      by blast
  next
    case False
    with Cons.prems have "sublist ''://'' cs"
      by (auto simp: sublist_Cons_right)
    from Cons.IH [OF this] obtain p r
      where cs: "cs = p @ ''://'' @ r" and p: "\<not> sublist ''://'' p"
      by blast
    have "\<not> prefix ''://'' (c # p)"
    proof
      assume "prefix ''://'' (c # p)"
      then have "prefix ''://'' ((c # p) @ ''://'' @ r)"
        by (rule prefix_prefix)
      moreover have "(c # p) @ ''://'' @ r = c # cs"
        unfolding cs by simp
      ultimately have "prefix ''://'' (c # cs)"
        by (simp only:)
      with False show False
        by blast
    qed
    with p have "\<not> sublist ''://'' (c # p)"
      by (simp add: sublist_Cons_right)
    moreover from cs have "c # cs = (c # p) @ ''://'' @ r"
      by simp
    ultimately show ?thesis
      by blast
  qed
qed

lemma first_separator_is_first:
  assumes "\<not> strings_Contains p ''://''" and "p @ ''://'' @ r = p' @ ''://'' @ r'"
  shows "length p \<le> length p'"
proof (rule ccontr)
  assume "\<not> length p \<le> length p'"
  then have lt: "length p' < length p"
    by simp
  from assms(2) have "take (length p) (p @ ''://'' @ r) = take (length p) (p' @ ''://'' @ r')"
    by simp
  with lt have "p = p' @ take (length p - length p') (''://'' @ r')"
    by simp
  then have "sublist p' p"
    by (metis sublist_append_rightI)
  with assms(1) have np': "\<not> strings_Contains p' ''://''"
    unfolding strings_Contains_def by (blast intro: sublist_order.order.trans)
  from Split_first [OF assms(1), of r] Split_first [OF np', of r'] assms(2)
  have "p = p'"
    by simp
  with lt show False
    by simp
qed

text \<open>
  The slice expressions of the parsers stay in range: in every pattern the suffix starts
  with a character that the prefix does not contain, so a prefix and a suffix of the
  same string cannot overlap. No parser panics.
\<close>

lemma overlap_free:
  assumes "prefix pre b" and "suffix suf b" and "suf \<noteq> []" and "hd suf \<notin> set pre"
  shows "length pre + length suf \<le> length b"
proof -
  from assms(1) obtain r where b: "b = pre @ r"
    by (auto simp: prefix_def)
  from assms(2) b have "suffix suf r \<or> (\<exists>xs'. suf = xs' @ r \<and> suffix xs' pre)"
    by (simp add: suffix_append)
  then show ?thesis
  proof
    assume "suffix suf r"
    then have "length suf \<le> length r"
      by (rule suffix_length_le)
    with b show ?thesis
      by simp
  next
    assume "\<exists>xs'. suf = xs' @ r \<and> suffix xs' pre"
    then obtain xs' where s: "suf = xs' @ r" and x: "suffix xs' pre"
      by blast
    have "xs' = []"
    proof (rule ccontr)
      assume ne: "xs' \<noteq> []"
      with s have "hd suf = hd xs'"
        by simp
      moreover from ne have "hd xs' \<in> set xs'"
        by simp
      moreover from x have "set xs' \<subseteq> set pre"
        by (rule set_mono_suffix)
      ultimately show False
        using assms(4) by auto
    qed
    with s b show ?thesis
      by simp
  qed
qed

lemma parsePatterns_returns:
  assumes "\<forall>(pre, suf) \<in> set patterns. suf \<noteq> [] \<and> hd suf \<notin> set pre"
  shows "\<exists>r. parsePatterns patterns basename = Return r"
  using assms
proof (induction patterns)
  case Nil
  then show ?case by simp
next
  case (Cons a patterns)
  obtain pre suf where a: "a = (pre, suf)"
    by (cases a)
  show ?case
  proof (cases "prefix pre basename \<and> suffix suf basename")
    case True
    with Cons.prems a have "length pre + length suf \<le> length basename"
      by (auto intro: overlap_free)
    with True a show ?thesis
      by (simp add: strings_HasPrefix_def strings_HasSuffix_def slice_def)
  next
    case False
    with Cons a show ?thesis
      by (auto simp: strings_HasPrefix_def strings_HasSuffix_def)
  qed
qed

lemma parsers_return:
  "\<exists>r. systemd_PodIDParser basename = Return r"
  "\<exists>r. systemd_ContainerIDParser basename = Return r"
  "\<exists>r. cgroupfs_PodIDParser basename = Return r"
  "\<exists>r. cgroupfs_ContainerIDParser basename = Return r"
proof -
  show "\<exists>r. systemd_PodIDParser basename = Return r"
    unfolding systemd_PodIDParser_def by (rule parsePatterns_returns) simp
  show "\<exists>r. systemd_ContainerIDParser basename = Return r"
    unfolding systemd_ContainerIDParser_def by (rule parsePatterns_returns) simp
  show "\<exists>r. cgroupfs_PodIDParser basename = Return r"
    by (auto simp: cgroupfs_PodIDParser_def strings_HasPrefix_def slice_def prefix_def)
  show "\<exists>r. cgroupfs_ContainerIDParser basename = Return r"
    by (simp add: cgroupfs_ContainerIDParser_def)
qed

lemma systemd_PodDirFn_eq:
  "systemd_PodDirFn qos podUID =
     (if qos = PodQOSBurstable
        then ''kubepods-burstable-pod'' @ hyphens_to_underscores podUID @ ''.slice/''
      else if qos = PodQOSBestEffort
        then ''kubepods-besteffort-pod'' @ hyphens_to_underscores podUID @ ''.slice/''
      else if qos = PodQOSGuaranteed
        then ''kubepods-pod'' @ hyphens_to_underscores podUID @ ''.slice/''
      else ''/'')"
  by (simp add: systemd_PodDirFn_def ReplaceAll_hyphen hyphens_to_underscores_def)

lemma Split_two_parts:
  "\<not> strings_Contains p ''://'' \<Longrightarrow> \<not> strings_Contains x ''://'' \<Longrightarrow>
   strings_Split (p @ ''://'' @ x) ''://'' = [p, x]"
  using Split_first [of p x] Split_no_sep [of x] by simp

lemma Split_at_least_two:
  "\<not> strings_Contains p ''://'' \<Longrightarrow>
   \<exists>h hs. strings_Split (p @ ''://'' @ r) ''://'' = p # h # hs"
  using Split_nonempty [of r] Split_first [of p r] by auto

lemma Split_three_parts:
  "\<not> strings_Contains p ''://'' \<Longrightarrow> \<not> strings_Contains x ''://'' \<Longrightarrow>
   \<exists>hs. strings_Split (p @ ''://'' @ x @ ''://'' @ r) ''://'' = p # x # hs"
  using Split_first [of p "x @ ''://'' @ r"] Split_first [of x r] by simp

lemma docker_no_sep: "\<not> strings_Contains ''docker'' ''://''"
  by (simp add: strings_Contains_def sublist_Cons_right)

lemma containerd_no_sep: "\<not> strings_Contains ''containerd'' ''://''"
  by (simp add: strings_Contains_def sublist_Cons_right)

lemma ContainerDirFn_no_sep:
  assumes "\<not> strings_Contains cid ''://''"
  shows "systemd_ContainerDirFn cid =
           (RuntimeTypeUnknown, '''', Some (Errorf (''parse container id '' @ cid @ '' failed'')))"
    and "cgroupfs_ContainerDirFn cid =
           (RuntimeTypeUnknown, '''', Some (Errorf (''parse container id '' @ cid @ '' failed'')))"
  using Split_no_sep [OF assms]
  by (simp_all add: systemd_ContainerDirFn_def cgroupfs_ContainerDirFn_def)

lemma ContainerDirFn_unknown_protocol:
  assumes "\<not> strings_Contains p ''://''" and "p \<noteq> RuntimeTypeDocker" and "p \<noteq> RuntimeTypeContainerd"
  shows "systemd_ContainerDirFn (p @ ''://'' @ r) =
           (RuntimeTypeUnknown, '''', Some (Errorf (''unknown container protocol '' @ p @ ''://'' @ r)))"
    and "cgroupfs_ContainerDirFn (p @ ''://'' @ r) =
           (RuntimeTypeUnknown, '''', Some (Errorf (''unknown container protocol '' @ p @ ''://'' @ r)))"
proof -
  from Split_at_least_two [OF assms(1), of r] obtain h hs
    where s: "strings_Split (p @ ''://'' @ r) ''://'' = p # h # hs" by blast
  show "systemd_ContainerDirFn (p @ ''://'' @ r) =
           (RuntimeTypeUnknown, '''', Some (Errorf (''unknown container protocol '' @ p @ ''://'' @ r)))"
    unfolding systemd_ContainerDirFn_def s using assms(2,3) by simp
  show "cgroupfs_ContainerDirFn (p @ ''://'' @ r) =
           (RuntimeTypeUnknown, '''', Some (Errorf (''unknown container protocol '' @ p @ ''://'' @ r)))"
    unfolding cgroupfs_ContainerDirFn_def s using assms(2,3) by simp
qed

lemma ContainerDirFn_second_part:
  assumes s: "strings_Split cid ''://'' = p # x # hs"
  shows "p = RuntimeTypeDocker \<Longrightarrow>
           systemd_ContainerDirFn cid = (RuntimeTypeDocker, ''docker-'' @ x @ ''.scope'', None)"
    and "p = RuntimeTypeContainerd \<Longrightarrow>
           systemd_ContainerDirFn cid =
             (RuntimeTypeContainerd, ''cri-containerd-'' @ x @ ''.scope'', None)"
    and "p = RuntimeTypeDocker \<Longrightarrow> cgroupfs_ContainerDirFn cid = (RuntimeTypeDocker, x, None)"
    and "p = RuntimeTypeContainerd \<Longrightarrow>
           cgroupfs_ContainerDirFn cid = (RuntimeTypeContainerd, x, None)"
  unfolding systemd_ContainerDirFn_def cgroupfs_ContainerDirFn_def s
  by (simp_all add: runtime_defs)

lemma ContainerDirFn_accepts:
  assumes "\<not> strings_Contains x ''://''"
  shows "systemd_ContainerDirFn (''docker://'' @ x) =
           (RuntimeTypeDocker, ''docker-'' @ x @ ''.scope'', None)"
    and "systemd_ContainerDirFn (''containerd://'' @ x) =
           (RuntimeTypeContainerd, ''cri-containerd-'' @ x @ ''.scope'', None)"
    and "cgroupfs_ContainerDirFn (''docker://'' @ x) = (RuntimeTypeDocker, x, None)"
    and "cgroupfs_ContainerDirFn (''containerd://'' @ x) = (RuntimeTypeContainerd, x, None)"
proof -
  have d: "strings_Split (''docker://'' @ x) ''://'' = [''docker'', x]"
    using Split_two_parts [OF docker_no_sep assms] by simp
  have c: "strings_Split (''containerd://'' @ x) ''://'' = [''containerd'', x]"
    using Split_two_parts [OF containerd_no_sep assms] by simp
  show "systemd_ContainerDirFn (''docker://'' @ x) =
           (RuntimeTypeDocker, ''docker-'' @ x @ ''.scope'', None)"
    by (rule ContainerDirFn_second_part(1) [OF d]) (simp add: runtime_defs)
  show "systemd_ContainerDirFn (''containerd://'' @ x) =
           (RuntimeTypeContainerd, ''cri-containerd-'' @ x @ ''.scope'', None)"
    by (rule ContainerDirFn_second_part(2) [OF c]) (simp add: runtime_defs)
  show "cgroupfs_ContainerDirFn (''docker://'' @ x) = (RuntimeTypeDocker, x, None)"
    by (rule ContainerDirFn_second_part(3) [OF d]) (simp add: runtime_defs)
  show "cgroupfs_ContainerDirFn (''containerd://'' @ x) = (RuntimeTypeContainerd, x, None)"
    by (rule ContainerDirFn_second_part(4) [OF c]) (simp add: runtime_defs)
qed

lemma ContainerDirFn_discards:
  assumes "\<not> strings_Contains x ''://''"
  shows "systemd_ContainerDirFn (''docker://'' @ x @ ''://'' @ r) =
           (RuntimeTypeDocker, ''docker-'' @ x @ ''.scope'', None)"
    and "systemd_ContainerDirFn (''containerd://'' @ x @ ''://'' @ r) =
           (RuntimeTypeContainerd, ''cri-containerd-'' @ x @ ''.scope'', None)"
    and "cgroupfs_ContainerDirFn (''docker://'' @ x @ ''://'' @ r) = (RuntimeTypeDocker, x, None)"
    and "cgroupfs_ContainerDirFn (''containerd://'' @ x @ ''://'' @ r) =
           (RuntimeTypeContainerd, x, None)"
proof -
  obtain hs where d: "strings_Split (''docker://'' @ x @ ''://'' @ r) ''://'' = ''docker'' # x # hs"
    using Split_three_parts [OF docker_no_sep assms, of r] by auto
  obtain hs' where
    c: "strings_Split (''containerd://'' @ x @ ''://'' @ r) ''://'' = ''containerd'' # x # hs'"
    using Split_three_parts [OF containerd_no_sep assms, of r] by auto
  show "systemd_ContainerDirFn (''docker://'' @ x @ ''://'' @ r) =
           (RuntimeTypeDocker, ''docker-'' @ x @ ''.scope'', None)"
    by (rule ContainerDirFn_second_part(1) [OF d]) (simp add: runtime_defs)
  show "systemd_ContainerDirFn (''containerd://'' @ x @ ''://'' @ r) =
           (RuntimeTypeContainerd, ''cri-containerd-'' @ x @ ''.scope'', None)"
    by (rule ContainerDirFn_second_part(2) [OF c]) (simp add: runtime_defs)
  show "cgroupfs_ContainerDirFn (''docker://'' @ x @ ''://'' @ r) = (RuntimeTypeDocker, x, None)"
    by (rule ContainerDirFn_second_part(3) [OF d]) (simp add: runtime_defs)
  show "cgroupfs_ContainerDirFn (''containerd://'' @ x @ ''://'' @ r) =
           (RuntimeTypeContainerd, x, None)"
    by (rule ContainerDirFn_second_part(4) [OF c]) (simp add: runtime_defs)
qed

lemma systemd_PodDirFn_butlast:
  assumes "qos \<in> {PodQOSGuaranteed, PodQOSBurstable, PodQOSBestEffort}"
  shows "systemd_PodIDParser (butlast (systemd_PodDirFn qos podUID))
           = Return (hyphens_to_underscores podUID, None)"
proof -
  have b: "butlast (pre @ u @ ''.slice/'') = pre @ u @ ''.slice''" for pre u :: string
    by (simp add: butlast_append)
  from assms consider "qos = PodQOSBurstable" | "qos = PodQOSBestEffort" | "qos = PodQOSGuaranteed"
    by auto
  then show ?thesis
  proof cases
    case 1
    then have "systemd_PodDirFn qos podUID
        = ''kubepods-burstable-pod'' @ hyphens_to_underscores podUID @ ''.slice/''"
      by (simp add: systemd_PodDirFn_eq)
    then show ?thesis
      by (simp only: b systemd_PodIDParser_burstable)
  next
    case 2
    then have "systemd_PodDirFn qos podUID
        = ''kubepods-besteffort-pod'' @ hyphens_to_underscores podUID @ ''.slice/''"
      by (simp add: systemd_PodDirFn_eq qos_defs)
    then show ?thesis
      by (simp only: b systemd_PodIDParser_besteffort)
  next
    case 3
    then have "systemd_PodDirFn qos podUID
        = ''kubepods-pod'' @ hyphens_to_underscores podUID @ ''.slice/''"
      by (simp add: systemd_PodDirFn_eq qos_defs)
    then show ?thesis
      by (simp only: b systemd_PodIDParser_guaranteed)
  qed
qed

lemma systemd_PodDirFn_slash:
  "\<exists>b. systemd_PodDirFn qos podUID = b @ ''/''"
proof -
  have "pre @ u @ ''.slice/'' = (pre @ u @ ''.slice'') @ ''/''" for pre u :: string
    by simp
  moreover have "''/'' = [] @ ''/''"
    by simp
  ultimately show ?thesis
    unfolding systemd_PodDirFn_eq by (metis (full_types))
qed

lemma systemd_PodDirFn_unparsed:
  "systemd_PodIDParser (systemd_PodDirFn qos podUID)
     = Return ('''', Some (Errorf (''fail to parse pod id: '' @ systemd_PodDirFn qos podUID)))"
proof -
  from systemd_PodDirFn_slash obtain b where "systemd_PodDirFn qos podUID = b @ ''/''"
    by blast
  then show ?thesis
    by (simp only: systemd_PodIDParser_trailing_slash)
qed

section \<open>Facts about the selection and the detection\<close>

lemma formatters_differ: "cgroupPathFormatterInCgroupfs \<noteq> cgroupPathFormatterInSystemd"
proof
  assume "cgroupPathFormatterInCgroupfs = cgroupPathFormatterInSystemd"
  then have "ParentDir cgroupPathFormatterInCgroupfs = ParentDir cgroupPathFormatterInSystemd"
    by simp
  then show False
    by (simp add: systemd_fields cgroupfs_fields KubeRootNameSystemd_def KubeRootNameCgroupfs_def)
qed

lemma drivers_differ: "Cgroupfs \<noteq> Systemd"
  by (simp add: Cgroupfs_def Systemd_def)


lemma PollImmediate_nil_valid:
  "PollImmediate attempts (d, w) = Return (None, d', w') \<Longrightarrow> Validate d'"
proof (induction attempts arbitrary: d w)
  case Nil
  then show ?case by simp
next
  case (Cons a attempts)
  then show ?case
    by (cases a) (auto split: if_splits)
qed

lemma PollImmediate_error_is_timeout:
  "PollImmediate attempts (d, w) = Return (Some e, d', w') \<Longrightarrow> e = ErrWaitTimeout"
proof (induction attempts arbitrary: d w)
  case Nil
  then show ?case by simp
next
  case (Cons a attempts)
  then show ?case
    by (cases a) (auto split: if_splits)
qed

lemma PollImmediate_returns:
  "\<forall>a \<in> set attempts. \<not> dies a \<Longrightarrow> \<exists>r. PollImmediate attempts (d, w) = Return r"
proof (induction attempts arbitrary: d w)
  case Nil
  then show ?case by simp
next
  case (Cons a attempts)
  then show ?case
    by (cases a) auto
qed

lemma PollImmediate_panic:
  "PollImmediate attempts (d, w) = Panic msg \<Longrightarrow> NewForConfigDies msg \<in> set attempts"
proof (induction attempts arbitrary: d w)
  case Nil
  then show ?case by simp
next
  case (Cons a attempts)
  then show ?case
    by (cases a) (auto split: if_splits)
qed

lemma DetectCgroupDriverFromKubelet_valid:
  "DetectCgroupDriverFromKubelet nodeName attempts w = Return ((driver, None), w') \<Longrightarrow>
   Validate driver"
  by (auto simp: DetectCgroupDriverFromKubelet_def
      split: go.splits prod.splits option.splits dest: PollImmediate_nil_valid)

lemma DetectCgroupDriverFromKubelet_returns:
  "\<forall>a \<in> set attempts. \<not> dies a \<Longrightarrow>
   \<exists>r. DetectCgroupDriverFromKubelet nodeName attempts w = Return r"
  using PollImmediate_returns [of attempts "''''" w]
  by (auto simp: DetectCgroupDriverFromKubelet_def split: prod.splits option.splits)

lemma DetectCgroupDriverFromKubelet_panic:
  "DetectCgroupDriverFromKubelet nodeName attempts w = Panic msg \<Longrightarrow>
   NewForConfigDies msg \<in> set attempts"
  by (auto simp: DetectCgroupDriverFromKubelet_def
      split: go.splits prod.splits option.splits dest: PollImmediate_panic)

lemma Systemd_valid: "Validate Systemd"
  by (simp add: Validate_def)


section \<open>The QoS directories\<close>

text \<open>
  C4. \<open>QOSDirFn\<close> of Guaranteed is \<open>/\<close> under both conventions; of Burstable it is
  \<open>kubepods-burstable.slice/\<close> under systemd and \<open>burstable/\<close> under cgroupfs; of
  BestEffort it is \<open>kubepods-besteffort.slice/\<close> under systemd and \<open>besteffort/\<close> under
  cgroupfs.
\<close>

theorem QOSDirFn_known_classes:
  "QOSDirFn cgroupPathFormatterInSystemd PodQOSGuaranteed = ''/''
   \<and> QOSDirFn cgroupPathFormatterInCgroupfs PodQOSGuaranteed = ''/''
   \<and> QOSDirFn cgroupPathFormatterInSystemd PodQOSBurstable = ''kubepods-burstable.slice/''
   \<and> QOSDirFn cgroupPathFormatterInCgroupfs PodQOSBurstable = ''burstable/''
   \<and> QOSDirFn cgroupPathFormatterInSystemd PodQOSBestEffort = ''kubepods-besteffort.slice/''
   \<and> QOSDirFn cgroupPathFormatterInCgroupfs PodQOSBestEffort = ''besteffort/''"
  by (simp add: cgroupPathFormatterInSystemd_def cgroupPathFormatterInCgroupfs_def
      systemd_QOSDirFn_def cgroupfs_QOSDirFn_def
      PodQOSGuaranteed_def PodQOSBurstable_def PodQOSBestEffort_def
      KubeBurstableNameSystemd_def KubeBesteffortNameSystemd_def
      KubeBurstableNameCgroupfs_def KubeBesteffortNameCgroupfs_def)


section \<open>The pod directories\<close>

text \<open>
  C5. Under the systemd convention \<open>PodDirFn\<close> replaces every hyphen of the pod UID by an
  underscore and returns \<open>kubepods-besteffort-pod<id>.slice/\<close> for BestEffort,
  \<open>kubepods-burstable-pod<id>.slice/\<close> for Burstable and \<open>kubepods-pod<id>.slice/\<close>
  for Guaranteed, for every pod UID; for Burstable and \<open>abc-123-def\<close> it returns
  \<open>kubepods-burstable-podabc_123_def.slice/\<close>.
\<close>

theorem systemd_PodDirFn_templates:
  "PodDirFn cgroupPathFormatterInSystemd PodQOSBestEffort podUID
     = ''kubepods-besteffort-pod'' @ hyphens_to_underscores podUID @ ''.slice/''
   \<and> PodDirFn cgroupPathFormatterInSystemd PodQOSBurstable podUID
     = ''kubepods-burstable-pod'' @ hyphens_to_underscores podUID @ ''.slice/''
   \<and> PodDirFn cgroupPathFormatterInSystemd PodQOSGuaranteed podUID
     = ''kubepods-pod'' @ hyphens_to_underscores podUID @ ''.slice/''
   \<and> PodDirFn cgroupPathFormatterInSystemd PodQOSBurstable ''abc-123-def''
     = ''kubepods-burstable-podabc_123_def.slice/''"
  by (simp add: cgroupPathFormatterInSystemd_def systemd_PodDirFn_eq qos_defs
      hyphens_to_underscores_def)


text \<open>
  C10. For a QoS class that is none of Guaranteed, Burstable and BestEffort, \<open>QOSDirFn\<close>
  returns \<open>/\<close> under both conventions and the systemd \<open>PodDirFn\<close> returns \<open>/\<close>,
  with no directory of the pod in it; the cgroupfs \<open>PodDirFn\<close> does not look at the QoS
  class and returns \<open>pod<UID>/\<close> for every class \<open>qos'\<close> and every pod UID.
\<close>

theorem unknown_qos_class:
  assumes "qos \<notin> {PodQOSGuaranteed, PodQOSBurstable, PodQOSBestEffort}"
  shows "QOSDirFn cgroupPathFormatterInSystemd qos = ''/''
       \<and> QOSDirFn cgroupPathFormatterInCgroupfs qos = ''/''
       \<and> PodDirFn cgroupPathFormatterInSystemd qos podUID = ''/''
       \<and> PodDirFn cgroupPathFormatterInCgroupfs qos podUID = ''pod'' @ podUID @ ''/''
       \<and> PodDirFn cgroupPathFormatterInCgroupfs qos' podUID = ''pod'' @ podUID @ ''/''"
  using assms
  by (simp add: systemd_fields cgroupfs_fields systemd_QOSDirFn_def cgroupfs_QOSDirFn_def
      systemd_PodDirFn_eq cgroupfs_PodDirFn_def)

theorem unknown_qos_class_witness:
  "''Unknown'' \<notin> {PodQOSGuaranteed, PodQOSBurstable, PodQOSBestEffort}
   \<and> QOSDirFn cgroupPathFormatterInSystemd ''Unknown'' = ''/''
   \<and> QOSDirFn cgroupPathFormatterInCgroupfs ''Unknown'' = ''/''
   \<and> PodDirFn cgroupPathFormatterInSystemd ''Unknown'' ''abc-123-def'' = ''/''
   \<and> PodDirFn cgroupPathFormatterInCgroupfs ''Unknown'' ''abc-123-def'' = ''podabc-123-def/''
   \<and> PodDirFn cgroupPathFormatterInCgroupfs PodQOSBurstable ''abc-123-def'' = ''podabc-123-def/''"
proof -
  have h: "''Unknown'' \<notin> {PodQOSGuaranteed, PodQOSBurstable, PodQOSBestEffort}"
    by (simp add: qos_defs)
  show ?thesis
    using h unknown_qos_class [OF h, of "''abc-123-def''" PodQOSBurstable] by simp
qed


section \<open>The container directories\<close>

text \<open>
  C3. Under both conventions \<open>ContainerDirFn\<close> returns the runtime kind \<open>unknown\<close>,
  the empty directory name and an error for every container ID that does not contain
  \<open>://\<close>, and for every container ID \<open>p://r\<close> whose text \<open>p\<close> before the first
  \<open>://\<close> (so \<open>p\<close> contains none) is neither \<open>docker\<close> nor \<open>containerd\<close>.
\<close>

theorem ContainerDirFn_rejects:
  "(\<not> strings_Contains cid ''://'' \<longrightarrow>
      ContainerDirFn cgroupPathFormatterInSystemd cid =
        (RuntimeTypeUnknown, '''', Some (Errorf (''parse container id '' @ cid @ '' failed'')))
      \<and> ContainerDirFn cgroupPathFormatterInCgroupfs cid =
        (RuntimeTypeUnknown, '''', Some (Errorf (''parse container id '' @ cid @ '' failed''))))
   \<and> (\<not> strings_Contains p ''://'' \<and> p \<noteq> RuntimeTypeDocker \<and> p \<noteq> RuntimeTypeContainerd \<longrightarrow>
      ContainerDirFn cgroupPathFormatterInSystemd (p @ ''://'' @ r) =
        (RuntimeTypeUnknown, '''',
         Some (Errorf (''unknown container protocol '' @ p @ ''://'' @ r)))
      \<and> ContainerDirFn cgroupPathFormatterInCgroupfs (p @ ''://'' @ r) =
        (RuntimeTypeUnknown, '''',
         Some (Errorf (''unknown container protocol '' @ p @ ''://'' @ r))))"
proof (intro conjI impI)
  assume h: "\<not> strings_Contains cid ''://''"
  show "ContainerDirFn cgroupPathFormatterInSystemd cid =
        (RuntimeTypeUnknown, '''', Some (Errorf (''parse container id '' @ cid @ '' failed'')))"
    unfolding systemd_fields by (rule ContainerDirFn_no_sep(1) [OF h])
  show "ContainerDirFn cgroupPathFormatterInCgroupfs cid =
        (RuntimeTypeUnknown, '''', Some (Errorf (''parse container id '' @ cid @ '' failed'')))"
    unfolding cgroupfs_fields by (rule ContainerDirFn_no_sep(2) [OF h])
next
  assume "\<not> strings_Contains p ''://'' \<and> p \<noteq> RuntimeTypeDocker \<and> p \<noteq> RuntimeTypeContainerd"
  then have h: "\<not> strings_Contains p ''://''" "p \<noteq> RuntimeTypeDocker"
    "p \<noteq> RuntimeTypeContainerd"
    by simp_all
  show "ContainerDirFn cgroupPathFormatterInSystemd (p @ ''://'' @ r) =
        (RuntimeTypeUnknown, '''',
         Some (Errorf (''unknown container protocol '' @ p @ ''://'' @ r)))"
    unfolding systemd_fields by (rule ContainerDirFn_unknown_protocol(1) [OF h])
  show "ContainerDirFn cgroupPathFormatterInCgroupfs (p @ ''://'' @ r) =
        (RuntimeTypeUnknown, '''',
         Some (Errorf (''unknown container protocol '' @ p @ ''://'' @ r)))"
    unfolding cgroupfs_fields by (rule ContainerDirFn_unknown_protocol(2) [OF h])
qed

theorem ContainerDirFn_rejects_witness:
  "\<not> strings_Contains ''deadbeef'' ''://''
   \<and> ContainerDirFn cgroupPathFormatterInSystemd ''deadbeef'' =
        (''unknown'', '''', Some (Errorf ''parse container id deadbeef failed''))
   \<and> ContainerDirFn cgroupPathFormatterInCgroupfs ''deadbeef'' =
        (''unknown'', '''', Some (Errorf ''parse container id deadbeef failed''))
   \<and> \<not> strings_Contains ''crio'' ''://'' \<and> ''crio'' \<noteq> RuntimeTypeDocker
   \<and> ''crio'' \<noteq> RuntimeTypeContainerd
   \<and> ContainerDirFn cgroupPathFormatterInSystemd ''crio://deadbeef'' =
        (''unknown'', '''', Some (Errorf ''unknown container protocol crio://deadbeef''))
   \<and> ContainerDirFn cgroupPathFormatterInCgroupfs ''crio://deadbeef'' =
        (''unknown'', '''', Some (Errorf ''unknown container protocol crio://deadbeef''))"
proof -
  have h1: "\<not> strings_Contains ''deadbeef'' ''://''"
    by (simp add: strings_Contains_def sublist_Cons_right)
  have h2: "\<not> strings_Contains ''crio'' ''://'' \<and> ''crio'' \<noteq> RuntimeTypeDocker
            \<and> ''crio'' \<noteq> RuntimeTypeContainerd"
    by (simp add: strings_Contains_def sublist_Cons_right runtime_defs)
  show ?thesis
    using h1 h2 ContainerDirFn_rejects [of "''deadbeef''" "''crio''" "''deadbeef''"]
    by (simp add: RuntimeTypeUnknown_def)
qed

text \<open>
  C2. For every container ID \<open>docker://X\<close> or \<open>containerd://X\<close> where \<open>X\<close> contains
  no \<open>/\<close> and no \<open>://\<close>, \<open>ContainerDirFn\<close> succeeds, and \<open>ContainerIDParser\<close>
  applied to the directory name it returns gives back \<open>X\<close> with no error: under systemd
  the name is \<open>docker-X.scope\<close> or \<open>cri-containerd-X.scope\<close>, under cgroupfs it is
  \<open>X\<close>.
\<close>

theorem container_id_round_trip:
  assumes "CHR ''/'' \<notin> set X" and "\<not> strings_Contains X ''://''"
  shows "ContainerDirFn cgroupPathFormatterInSystemd (''docker://'' @ X)
           = (RuntimeTypeDocker, ''docker-'' @ X @ ''.scope'', None)
       \<and> ContainerIDParser cgroupPathFormatterInSystemd
             (fst (snd (ContainerDirFn cgroupPathFormatterInSystemd (''docker://'' @ X))))
           = Return (X, None)
       \<and> ContainerDirFn cgroupPathFormatterInSystemd (''containerd://'' @ X)
           = (RuntimeTypeContainerd, ''cri-containerd-'' @ X @ ''.scope'', None)
       \<and> ContainerIDParser cgroupPathFormatterInSystemd
             (fst (snd (ContainerDirFn cgroupPathFormatterInSystemd (''containerd://'' @ X))))
           = Return (X, None)
       \<and> ContainerDirFn cgroupPathFormatterInCgroupfs (''docker://'' @ X)
           = (RuntimeTypeDocker, X, None)
       \<and> ContainerIDParser cgroupPathFormatterInCgroupfs
             (fst (snd (ContainerDirFn cgroupPathFormatterInCgroupfs (''docker://'' @ X))))
           = Return (X, None)
       \<and> ContainerDirFn cgroupPathFormatterInCgroupfs (''containerd://'' @ X)
           = (RuntimeTypeContainerd, X, None)
       \<and> ContainerIDParser cgroupPathFormatterInCgroupfs
             (fst (snd (ContainerDirFn cgroupPathFormatterInCgroupfs (''containerd://'' @ X))))
           = Return (X, None)"
proof -
  note dir = ContainerDirFn_accepts [OF assms(2)]
  have "systemd_ContainerIDParser (fst (snd (systemd_ContainerDirFn (''docker://'' @ X))))
          = Return (X, None)"
    by (simp only: dir fst_conv snd_conv systemd_ContainerIDParser_docker)
  moreover
  have "systemd_ContainerIDParser (fst (snd (systemd_ContainerDirFn (''containerd://'' @ X))))
          = Return (X, None)"
    by (simp only: dir fst_conv snd_conv systemd_ContainerIDParser_containerd)
  moreover
  have "cgroupfs_ContainerIDParser (fst (snd (cgroupfs_ContainerDirFn (''docker://'' @ X))))
          = Return (X, None)"
    by (simp only: dir fst_conv snd_conv cgroupfs_ContainerIDParser_def)
  moreover
  have "cgroupfs_ContainerIDParser (fst (snd (cgroupfs_ContainerDirFn (''containerd://'' @ X))))
          = Return (X, None)"
    by (simp only: dir fst_conv snd_conv cgroupfs_ContainerIDParser_def)
  ultimately show ?thesis
    unfolding systemd_fields cgroupfs_fields by (intro conjI dir)
qed

theorem container_id_round_trip_witness:
  "CHR ''/'' \<notin> set ''deadbeef'' \<and> \<not> strings_Contains ''deadbeef'' ''://''
   \<and> ContainerDirFn cgroupPathFormatterInSystemd ''docker://deadbeef''
       = (''docker'', ''docker-deadbeef.scope'', None)
   \<and> ContainerIDParser cgroupPathFormatterInSystemd ''docker-deadbeef.scope''
       = Return (''deadbeef'', None)
   \<and> ContainerDirFn cgroupPathFormatterInSystemd ''containerd://deadbeef''
       = (''containerd'', ''cri-containerd-deadbeef.scope'', None)
   \<and> ContainerIDParser cgroupPathFormatterInSystemd ''cri-containerd-deadbeef.scope''
       = Return (''deadbeef'', None)
   \<and> ContainerDirFn cgroupPathFormatterInCgroupfs ''docker://deadbeef''
       = (''docker'', ''deadbeef'', None)
   \<and> ContainerDirFn cgroupPathFormatterInCgroupfs ''containerd://deadbeef''
       = (''containerd'', ''deadbeef'', None)
   \<and> ContainerIDParser cgroupPathFormatterInCgroupfs ''deadbeef'' = Return (''deadbeef'', None)"
proof -
  have h1: "CHR ''/'' \<notin> set ''deadbeef''"
    by simp
  have h2: "\<not> strings_Contains ''deadbeef'' ''://''"
    by (simp add: strings_Contains_def sublist_Cons_right)
  have "ContainerDirFn cgroupPathFormatterInSystemd ''docker://deadbeef''
       = (''docker'', ''docker-deadbeef.scope'', None)"
    and "ContainerDirFn cgroupPathFormatterInSystemd ''containerd://deadbeef''
       = (''containerd'', ''cri-containerd-deadbeef.scope'', None)"
    and "ContainerDirFn cgroupPathFormatterInCgroupfs ''docker://deadbeef''
       = (''docker'', ''deadbeef'', None)"
    and "ContainerDirFn cgroupPathFormatterInCgroupfs ''containerd://deadbeef''
       = (''containerd'', ''deadbeef'', None)"
    using container_id_round_trip [OF h1 h2] by (simp_all add: runtime_defs)
  then show ?thesis
    using h1 h2 container_id_round_trip [OF h1 h2] by simp
qed

text \<open>
  C9. For a container ID with more than one \<open>://\<close> whose first segment is \<open>docker\<close> or
  \<open>containerd\<close>, \<open>ContainerDirFn\<close> succeeds under both conventions and takes as the
  hash only the text \<open>X\<close> between the first and the second \<open>://\<close>; what follows the
  second separator is dropped and no error is reported. So \<open>docker://a://b\<close> gives
  \<open>docker-a.scope\<close> under systemd and \<open>a\<close> under cgroupfs.
\<close>

theorem second_separator_discarded:
  assumes "\<not> strings_Contains X ''://''"
  shows "ContainerDirFn cgroupPathFormatterInSystemd (''docker://'' @ X @ ''://'' @ rest)
           = (RuntimeTypeDocker, ''docker-'' @ X @ ''.scope'', None)
       \<and> ContainerDirFn cgroupPathFormatterInSystemd (''containerd://'' @ X @ ''://'' @ rest)
           = (RuntimeTypeContainerd, ''cri-containerd-'' @ X @ ''.scope'', None)
       \<and> ContainerDirFn cgroupPathFormatterInCgroupfs (''docker://'' @ X @ ''://'' @ rest)
           = (RuntimeTypeDocker, X, None)
       \<and> ContainerDirFn cgroupPathFormatterInCgroupfs (''containerd://'' @ X @ ''://'' @ rest)
           = (RuntimeTypeContainerd, X, None)"
  unfolding systemd_fields cgroupfs_fields
  by (intro conjI ContainerDirFn_discards [OF assms])

theorem second_separator_discarded_witness:
  "\<not> strings_Contains ''a'' ''://''
   \<and> ContainerDirFn cgroupPathFormatterInSystemd ''docker://a://b''
       = (''docker'', ''docker-a.scope'', None)
   \<and> ContainerDirFn cgroupPathFormatterInSystemd ''containerd://a://b''
       = (''containerd'', ''cri-containerd-a.scope'', None)
   \<and> ContainerDirFn cgroupPathFormatterInCgroupfs ''docker://a://b'' = (''docker'', ''a'', None)
   \<and> ContainerDirFn cgroupPathFormatterInCgroupfs ''containerd://a://b''
       = (''containerd'', ''a'', None)"
proof -
  have h: "\<not> strings_Contains ''a'' ''://''"
    by (simp add: strings_Contains_def sublist_Cons_right)
  show ?thesis
    using h second_separator_discarded [OF h, of "''b''"] by (simp add: runtime_defs)
qed

section \<open>Formatting a pod directory and parsing it back\<close>

text \<open>
  C1 as stated fails: \<open>PodDirFn\<close> ends the name it returns with \<open>/\<close>, and the parsers
  take a basename. On the output of \<open>PodDirFn\<close> itself the cgroupfs parser returns the
  UID followed by \<open>/\<close>, and the systemd parser finds no \<open>.slice\<close> at the end and
  returns an error.
\<close>

theorem pod_id_round_trip_counterexample:
  "PodIDParser cgroupPathFormatterInCgroupfs
       (PodDirFn cgroupPathFormatterInCgroupfs PodQOSBurstable ''abc-123-def'')
     = Return (''abc-123-def/'', None)
   \<and> PodIDParser cgroupPathFormatterInCgroupfs
       (PodDirFn cgroupPathFormatterInCgroupfs PodQOSBurstable ''abc-123-def'')
     \<noteq> Return (''abc-123-def'', None)
   \<and> PodIDParser cgroupPathFormatterInSystemd
       (PodDirFn cgroupPathFormatterInSystemd PodQOSBurstable ''abc-123-def'')
     = Return ('''', Some (Errorf
         ''fail to parse pod id: kubepods-burstable-podabc_123_def.slice/''))
   \<and> PodIDParser cgroupPathFormatterInSystemd
       (PodDirFn cgroupPathFormatterInSystemd PodQOSBurstable ''abc-123-def'')
     \<noteq> Return (''abc_123_def'', None)"
  by (simp add: systemd_fields cgroupfs_fields cgroupfs_PodDirFn_def cgroupfs_PodIDParser_def
      systemd_PodDirFn_def systemd_PodIDParser_def strings_HasPrefix_def strings_HasSuffix_def
      slice_def qos_defs suffix_to_prefix)


text \<open>
  C1, amended. For every QoS class in \<open>{Guaranteed, Burstable, BestEffort}\<close> and every
  pod UID, the name that \<open>PodDirFn\<close> returns ends with \<open>/\<close>, and \<open>PodIDParser\<close>
  applied to that name without its final \<open>/\<close> returns, with no error, the UID under the
  cgroupfs convention and the UID with every hyphen replaced by an underscore under the
  systemd convention. Applied to the name with its final \<open>/\<close>, the cgroupfs parser
  returns the UID followed by \<open>/\<close> and the systemd parser returns an error.
\<close>

theorem pod_id_round_trip_on_basename:
  assumes "qos \<in> {PodQOSGuaranteed, PodQOSBurstable, PodQOSBestEffort}"
  shows "last (PodDirFn cgroupPathFormatterInCgroupfs qos podUID) = CHR ''/''
       \<and> PodIDParser cgroupPathFormatterInCgroupfs
           (butlast (PodDirFn cgroupPathFormatterInCgroupfs qos podUID))
         = Return (podUID, None)
       \<and> last (PodDirFn cgroupPathFormatterInSystemd qos podUID) = CHR ''/''
       \<and> PodIDParser cgroupPathFormatterInSystemd
           (butlast (PodDirFn cgroupPathFormatterInSystemd qos podUID))
         = Return (hyphens_to_underscores podUID, None)
       \<and> PodIDParser cgroupPathFormatterInCgroupfs
           (PodDirFn cgroupPathFormatterInCgroupfs qos podUID)
         = Return (podUID @ ''/'', None)
       \<and> PodIDParser cgroupPathFormatterInSystemd
           (PodDirFn cgroupPathFormatterInSystemd qos podUID)
         = Return ('''', Some (Errorf (''fail to parse pod id: ''
             @ PodDirFn cgroupPathFormatterInSystemd qos podUID)))"
proof (intro conjI)
  show "last (PodDirFn cgroupPathFormatterInCgroupfs qos podUID) = CHR ''/''"
    by (simp add: cgroupfs_fields cgroupfs_PodDirFn_def)
  have "butlast (''pod'' @ podUID @ ''/'') = ''pod'' @ podUID"
    by (simp add: butlast_append)
  then show "PodIDParser cgroupPathFormatterInCgroupfs
           (butlast (PodDirFn cgroupPathFormatterInCgroupfs qos podUID))
         = Return (podUID, None)"
    by (simp only: cgroupfs_fields cgroupfs_PodDirFn_def cgroupfs_PodIDParser_pod)
  show "last (PodDirFn cgroupPathFormatterInSystemd qos podUID) = CHR ''/''"
    using systemd_PodDirFn_slash [of qos podUID] by (auto simp: systemd_fields)
  show "PodIDParser cgroupPathFormatterInSystemd
           (butlast (PodDirFn cgroupPathFormatterInSystemd qos podUID))
         = Return (hyphens_to_underscores podUID, None)"
    unfolding systemd_fields by (rule systemd_PodDirFn_butlast [OF assms])
  have "''pod'' @ podUID @ ''/'' = ''pod'' @ (podUID @ ''/'')"
    by simp
  then show "PodIDParser cgroupPathFormatterInCgroupfs
           (PodDirFn cgroupPathFormatterInCgroupfs qos podUID)
         = Return (podUID @ ''/'', None)"
    by (simp only: cgroupfs_fields cgroupfs_PodDirFn_def cgroupfs_PodIDParser_pod)
  show "PodIDParser cgroupPathFormatterInSystemd
           (PodDirFn cgroupPathFormatterInSystemd qos podUID)
         = Return ('''', Some (Errorf (''fail to parse pod id: ''
             @ PodDirFn cgroupPathFormatterInSystemd qos podUID)))"
    unfolding systemd_fields by (rule systemd_PodDirFn_unparsed)
qed

theorem pod_id_round_trip_on_basename_witness:
  "PodQOSBurstable \<in> {PodQOSGuaranteed, PodQOSBurstable, PodQOSBestEffort}
   \<and> PodDirFn cgroupPathFormatterInCgroupfs PodQOSBurstable ''abc-123-def'' = ''podabc-123-def/''
   \<and> PodIDParser cgroupPathFormatterInCgroupfs ''podabc-123-def'' = Return (''abc-123-def'', None)
   \<and> PodDirFn cgroupPathFormatterInSystemd PodQOSBurstable ''abc-123-def''
       = ''kubepods-burstable-podabc_123_def.slice/''
   \<and> PodIDParser cgroupPathFormatterInSystemd ''kubepods-burstable-podabc_123_def.slice''
       = Return (''abc_123_def'', None)"
proof -
  have h: "PodQOSBurstable \<in> {PodQOSGuaranteed, PodQOSBurstable, PodQOSBestEffort}"
    by simp
  have c: "PodDirFn cgroupPathFormatterInCgroupfs PodQOSBurstable ''abc-123-def''
             = ''podabc-123-def/''"
    by (simp add: cgroupfs_fields cgroupfs_PodDirFn_def)
  have s: "PodDirFn cgroupPathFormatterInSystemd PodQOSBurstable ''abc-123-def''
             = ''kubepods-burstable-podabc_123_def.slice/''"
    by (simp add: systemd_fields systemd_PodDirFn_def)
  show ?thesis
    using h pod_id_round_trip_on_basename [OF h, of "''abc-123-def''"]
    unfolding c s by (simp add: hyphens_to_underscores_def)
qed

section \<open>Selecting the formatter\<close>

text \<open>
  C6. \<open>GetCgroupPathFormatter\<close> returns a formatter for every driver value: the
  cgroupfs formatter exactly when the driver is \<open>cgroupfs\<close>, the systemd formatter when
  it is \<open>systemd\<close> and the systemd formatter for every other string. It does not write
  the active-formatter slot.
\<close>

theorem GetCgroupPathFormatter_total:
  "fst (GetCgroupPathFormatter driver w) =
     (if driver = Cgroupfs then cgroupPathFormatterInCgroupfs else cgroupPathFormatterInSystemd)
   \<and> (fst (GetCgroupPathFormatter driver w) = cgroupPathFormatterInCgroupfs) = (driver = Cgroupfs)
   \<and> fst (GetCgroupPathFormatter Systemd w) = cgroupPathFormatterInSystemd
   \<and> fst (GetCgroupPathFormatter Cgroupfs w) = cgroupPathFormatterInCgroupfs
   \<and> CgroupPathFormatter (snd (GetCgroupPathFormatter driver w)) = CgroupPathFormatter w"
  using formatters_differ drivers_differ
  by (auto simp: GetCgroupPathFormatter_def klog_write_def)


text \<open>
  C7. \<open>SetupCgroupPathFormatter\<close> sets the slot \<open>CgroupPathFormatter\<close> to the systemd
  formatter when called with \<open>systemd\<close> and to the cgroupfs formatter when called with
  \<open>cgroupfs\<close>; for every other driver value it only writes a warning to the log, and
  the slot keeps its value.
\<close>

theorem SetupCgroupPathFormatter_slot:
  "CgroupPathFormatter (SetupCgroupPathFormatter Systemd w) = cgroupPathFormatterInSystemd
   \<and> CgroupPathFormatter (SetupCgroupPathFormatter Cgroupfs w) = cgroupPathFormatterInCgroupfs
   \<and> (\<not> Validate driver \<longrightarrow>
        SetupCgroupPathFormatter driver w =
          w\<lparr>klog := klog w @
            [(WARNING, ''cgroup driver formatter not supported: '' @ quoted driver)]\<rparr>
        \<and> CgroupPathFormatter (SetupCgroupPathFormatter driver w) = CgroupPathFormatter w)"
  using drivers_differ
  by (auto simp: SetupCgroupPathFormatter_def klog_write_def Validate_def)

theorem SetupCgroupPathFormatter_slot_witness:
  "\<not> Validate ''cgroupsv2''
   \<and> CgroupPathFormatter (SetupCgroupPathFormatter ''cgroupsv2''
        \<lparr>CgroupPathFormatter = cgroupPathFormatterInCgroupfs, klog = []\<rparr>)
     = cgroupPathFormatterInCgroupfs
   \<and> klog (SetupCgroupPathFormatter ''cgroupsv2''
        \<lparr>CgroupPathFormatter = cgroupPathFormatterInCgroupfs, klog = []\<rparr>)
     = [(WARNING, ''cgroup driver formatter not supported: '' @ quoted ''cgroupsv2'')]"
proof -
  have h: "\<not> Validate ''cgroupsv2''"
    by (simp add: Validate_def Cgroupfs_def Systemd_def)
  show ?thesis
    using h SetupCgroupPathFormatter_slot
      [of "\<lparr>CgroupPathFormatter = cgroupPathFormatterInCgroupfs, klog = []\<rparr>" "''cgroupsv2''"]
    by simp
qed

section \<open>Detecting the driver\<close>

text \<open>
  C8 as stated fails: when the guess from the cgroup names is not valid and the client
  constructor \<^verbatim>\<open>NewForConfigOrDie\<close> panics in the first poll attempt, the panic leaves
  \<open>DetectCgroupDriver\<close>, which then returns no driver.
\<close>

theorem DetectCgroupDriver_panics:
  "DetectCgroupDriver ''node-1'' '''' [NewForConfigDies ''no client'']
     \<lparr>CgroupPathFormatter = cgroupPathFormatterInSystemd, klog = []\<rparr> = Panic ''no client''
   \<and> \<not> Validate ''''"
  by (simp add: DetectCgroupDriver_def DetectCgroupDriverFromKubelet_def Validate_def
      Cgroupfs_def Systemd_def klog_write_def)

text \<open>
  C8, amended. With \<open>w1\<close> the state after the first log line and \<open>w2\<close> the state in
  which the kubelet-based detection is called:
  \<^item> if the guess from the cgroup names is valid, \<open>DetectCgroupDriver\<close> returns it,
    whatever the poll attempts would have been: the kubelet is not consulted;
  \<^item> otherwise, if the kubelet-based detection returns without error,
    \<open>DetectCgroupDriver\<close> returns its result, and the result satisfies \<open>Validate\<close>;
  \<^item> otherwise, if the kubelet-based detection returns an error,
    \<open>DetectCgroupDriver\<close> returns \<open>systemd\<close>;
  \<^item> if the guess is valid, or in no poll attempt the client constructor panics,
    \<open>DetectCgroupDriver\<close> returns a driver that satisfies \<open>Validate\<close>;
  \<^item> \<open>DetectCgroupDriver\<close> panics only when the guess is not valid and the client
    constructor panics in a poll attempt.
\<close>

theorem DetectCgroupDriver_policy:
  assumes w1: "w1 = klog_write INFO ''start to get cgroup driver formatter...'' w"
    and w2: "w2 = klog_write INFO
               (''can not detect cgroup driver from '' @ quoted ''kubepods'' @ '' cgroup name'') w1"
  shows "(Validate guess \<longrightarrow>
           DetectCgroupDriver nodeName guess attempts w =
             Return (guess,
               klog_write INFO (''Node '' @ nodeName @ '' use '' @ quoted guess
                 @ '' as cgroup driver according to the cgroup name'') w1))
       \<and> (\<not> Validate guess
            \<and> DetectCgroupDriverFromKubelet nodeName attempts w2 = Return ((driver, None), w3) \<longrightarrow>
           DetectCgroupDriver nodeName guess attempts w =
             Return (driver,
               klog_write INFO (''Node '' @ nodeName @ '' use '' @ quoted driver
                 @ '' as cgroup driver according to the kubelet config'') w3)
           \<and> Validate driver)
       \<and> (\<not> Validate guess
            \<and> DetectCgroupDriverFromKubelet nodeName attempts w2 = Return ((driver, Some err), w3) \<longrightarrow>
           DetectCgroupDriver nodeName guess attempts w =
             Return (Systemd,
               klog_write ERROR
                 (''can not detect cgroup driver from kubelet, use the default, err: ''
                   @ verb_v (Some err)) w3))
       \<and> (Validate guess \<or> (\<forall>a \<in> set attempts. \<not> dies a) \<longrightarrow>
           (\<exists>d w'. DetectCgroupDriver nodeName guess attempts w = Return (d, w') \<and> Validate d))
       \<and> (DetectCgroupDriver nodeName guess attempts w = Panic msg \<longrightarrow>
           \<not> Validate guess \<and> NewForConfigDies msg \<in> set attempts)"
proof -
  have unfolded: "DetectCgroupDriver nodeName guess attempts w =
     (if Validate guess
      then Return (guess,
             klog_write INFO (''Node '' @ nodeName @ '' use '' @ quoted guess
               @ '' as cgroup driver according to the cgroup name'') w1)
      else case DetectCgroupDriverFromKubelet nodeName attempts w2 of
             Panic msg \<Rightarrow> Panic msg
           | Return ((driver, None), w3) \<Rightarrow>
               Return (driver,
                 klog_write INFO (''Node '' @ nodeName @ '' use '' @ quoted driver
                   @ '' as cgroup driver according to the kubelet config'') w3)
           | Return ((driver, Some err), w3) \<Rightarrow>
               Return (Systemd,
                 klog_write ERROR
                   (''can not detect cgroup driver from kubelet, use the default, err: ''
                     @ verb_v (Some err)) w3))"
    unfolding DetectCgroupDriver_def Let_def w1 w2 ..
  show ?thesis
  proof (intro conjI impI)
  assume "Validate guess"
  then show "DetectCgroupDriver nodeName guess attempts w =
             Return (guess,
               klog_write INFO (''Node '' @ nodeName @ '' use '' @ quoted guess
                 @ '' as cgroup driver according to the cgroup name'') w1)"
    unfolding unfolded by simp
next
  assume h: "\<not> Validate guess
            \<and> DetectCgroupDriverFromKubelet nodeName attempts w2 = Return ((driver, None), w3)"
  then show "DetectCgroupDriver nodeName guess attempts w =
             Return (driver,
               klog_write INFO (''Node '' @ nodeName @ '' use '' @ quoted driver
                 @ '' as cgroup driver according to the kubelet config'') w3)"
    unfolding unfolded by simp
  from h show "Validate driver"
    by (auto dest: DetectCgroupDriverFromKubelet_valid)
next
  assume h: "\<not> Validate guess
            \<and> DetectCgroupDriverFromKubelet nodeName attempts w2 = Return ((driver, Some err), w3)"
  then show "DetectCgroupDriver nodeName guess attempts w =
             Return (Systemd,
               klog_write ERROR
                 (''can not detect cgroup driver from kubelet, use the default, err: ''
                   @ verb_v (Some err)) w3)"
    unfolding unfolded by simp
next
  assume h: "Validate guess \<or> (\<forall>a \<in> set attempts. \<not> dies a)"
  show "\<exists>d w'. DetectCgroupDriver nodeName guess attempts w = Return (d, w') \<and> Validate d"
  proof (cases "Validate guess")
    case True
    then show ?thesis
      unfolding unfolded by simp
  next
    case False
    with h have "\<forall>a \<in> set attempts. \<not> dies a"
      by simp
    from DetectCgroupDriverFromKubelet_returns [OF this, of nodeName w2]
    obtain d e v where r: "DetectCgroupDriverFromKubelet nodeName attempts w2 = Return ((d, e), v)"
      by (metis prod.exhaust)
    show ?thesis
    proof (cases e)
      case None
      with r have "Validate d"
        by (auto dest: DetectCgroupDriverFromKubelet_valid)
      with False r None show ?thesis
        unfolding unfolded by simp
    next
      case (Some err)
      with False r show ?thesis
        unfolding unfolded by (simp add: Systemd_valid)
    qed
  qed
next
  assume p: "DetectCgroupDriver nodeName guess attempts w = Panic msg"
  then show "\<not> Validate guess"
    unfolding unfolded by auto
  with p have "DetectCgroupDriverFromKubelet nodeName attempts w2 = Panic msg"
    unfolding unfolded by (auto split: go.splits prod.splits option.splits)
  then show "NewForConfigDies msg \<in> set attempts"
    by (rule DetectCgroupDriverFromKubelet_panic)
  qed
qed


theorem DetectCgroupDriver_policy_witness:
  "Validate ''cgroupfs''
   \<and> returned (DetectCgroupDriver ''node-1'' ''cgroupfs'' [NewForConfigDies ''no client'']
        \<lparr>CgroupPathFormatter = cgroupPathFormatterInSystemd, klog = []\<rparr>) = Return ''cgroupfs''
   \<and> \<not> Validate ''''
   \<and> returned (DetectCgroupDriver ''node-1'' ''''
        [GetConfigFails (Errorf ''no config''), KubeletPortGuess ''cgroupfs'' None]
        \<lparr>CgroupPathFormatter = cgroupPathFormatterInSystemd, klog = []\<rparr>) = Return ''cgroupfs''
   \<and> returned (DetectCgroupDriver ''node-1'' '''' [GetNodeFails None]
        \<lparr>CgroupPathFormatter = cgroupPathFormatterInSystemd, klog = []\<rparr>) = Return ''systemd''
   \<and> returned (DetectCgroupDriver ''node-1'' '''' [NewForConfigDies ''no client'']
        \<lparr>CgroupPathFormatter = cgroupPathFormatterInSystemd, klog = []\<rparr>) = Panic ''no client''
   \<and> NewForConfigDies ''no client'' \<in> set [NewForConfigDies ''no client'']"
proof -
  define w0 where "w0 = \<lparr>CgroupPathFormatter = cgroupPathFormatterInSystemd, klog = []\<rparr>"
  have v: "Validate ''cgroupfs''" and nv: "\<not> Validate ''''"
    by (simp_all add: Validate_def Cgroupfs_def Systemd_def)
  have ok: "DetectCgroupDriverFromKubelet ''node-1''
              [GetConfigFails (Errorf ''no config''), KubeletPortGuess ''cgroupfs'' None] s
            = Return ((''cgroupfs'', None),
                klog_write ERROR (''failed to get rest config.err='' @ ''no config'') s)" for s
    using v by (simp add: DetectCgroupDriverFromKubelet_def verb_v_def)
  have timeout: "DetectCgroupDriverFromKubelet ''node-1'' [GetNodeFails None] s
            = Return (('''', Some ErrWaitTimeout),
                klog_write ERROR (''Can'' @ [CHR 0x27] @ ''t get node, err: '' @ ''<nil>'') s)" for s
    by (simp add: DetectCgroupDriverFromKubelet_def verb_v_def)
  have dies: "\<forall>a \<in> set [GetConfigFails (Errorf ''no config''), KubeletPortGuess ''cgroupfs'' None].
               \<not> dies a"
    by simp
  have panics: "DetectCgroupDriver ''node-1'' '''' [NewForConfigDies ''no client''] w0
            = Panic ''no client''"
    using nv by (simp add: DetectCgroupDriver_def DetectCgroupDriverFromKubelet_def)
  note at_valid = DetectCgroupDriver_policy
    [where w = w0 and guess = "''cgroupfs''" and nodeName = "''node-1''"
       and attempts = "[NewForConfigDies ''no client'']", OF refl refl]
  note at_ok = DetectCgroupDriver_policy
    [where w = w0 and guess = "''''" and nodeName = "''node-1''"
       and attempts = "[GetConfigFails (Errorf ''no config''), KubeletPortGuess ''cgroupfs'' None]"
       and driver = "''cgroupfs''", OF refl refl]
  note at_timeout = DetectCgroupDriver_policy
    [where w = w0 and guess = "''''" and nodeName = "''node-1''"
       and attempts = "[GetNodeFails None]" and driver = "''''" and err = ErrWaitTimeout,
     OF refl refl]
  note at_panic = DetectCgroupDriver_policy
    [where w = w0 and guess = "''''" and nodeName = "''node-1''"
       and attempts = "[NewForConfigDies ''no client'']" and msg = "''no client''", OF refl refl]
  note r_valid = at_valid [THEN conjunct1, THEN mp, OF v]
  note r_ok = at_ok [THEN conjunct2, THEN conjunct1, THEN mp, OF conjI [OF nv ok], THEN conjunct1]
  note r_timeout =
    at_timeout [THEN conjunct2, THEN conjunct2, THEN conjunct1, THEN mp, OF conjI [OF nv timeout]]
  note r_panic =
    at_panic [THEN conjunct2, THEN conjunct2, THEN conjunct2, THEN conjunct2, THEN mp, OF panics,
      THEN conjunct2]
  have "returned (DetectCgroupDriver ''node-1'' ''cgroupfs'' [NewForConfigDies ''no client''] w0)
          = Return ''cgroupfs''"
    unfolding r_valid by (simp add: returned_def)
  moreover
  have "returned (DetectCgroupDriver ''node-1'' ''''
          [GetConfigFails (Errorf ''no config''), KubeletPortGuess ''cgroupfs'' None] w0)
          = Return ''cgroupfs''"
    unfolding r_ok by (simp add: returned_def)
  moreover
  have "returned (DetectCgroupDriver ''node-1'' '''' [GetNodeFails None] w0) = Return ''systemd''"
    unfolding r_timeout by (simp add: returned_def Systemd_def)
  moreover
  have "returned (DetectCgroupDriver ''node-1'' '''' [NewForConfigDies ''no client''] w0)
          = Panic ''no client''"
    unfolding panics by (simp add: returned_def)
  moreover
  note r_panic
  ultimately show ?thesis
    using v nv unfolding w0_def by (intro conjI)
qed

end
